theory Spec2Isabelle
  imports Main
begin

section \<open>JavaScript values as the token and variant code sees them\<close>

text \<open>
  The token files and the button resolver are plain TypeScript over object literals,
  strings and numbers. The values below are the run-time values those files can reach:
  an object literal carries its own properties in source order and inherits from
  \<open>Object.prototype\<close>; \<open>JProto\<close> is \<open>Object.prototype\<close> itself and \<open>JNative n\<close>
  is the built-in function object whose \<open>name\<close> is \<open>n\<close>. Strings are lists of code
  units below 256; all token data is ASCII. Token numbers are integers.
\<close>

datatype jsval =
    JUndefined
  | JNull
  | JStr string
  | JNum int
  | JObj "(string \<times> jsval) list"
  | JProto
  | JNative string

text \<open>The string-keyed properties of \<open>Object.prototype\<close> (ECMA-262, 20.1.3).\<close>

definition proto_keys :: "string list" where
  "proto_keys =
     [''constructor'', ''hasOwnProperty'', ''isPrototypeOf'', ''propertyIsEnumerable'',
      ''toLocaleString'', ''toString'', ''valueOf'', ''__proto__'',
      ''__defineGetter__'', ''__defineSetter__'', ''__lookupGetter__'', ''__lookupSetter__'']"

text \<open>
  Reading a property of \<open>Object.prototype\<close>: \<open>constructor\<close> is the function \<open>Object\<close>,
  \<open>__proto__\<close> is an accessor that returns the prototype of the receiver \<open>recv_proto\<close>,
  every other key is a built-in method named after its key.
\<close>

definition proto_get :: "jsval \<Rightarrow> string \<Rightarrow> jsval" where
  "proto_get recv_proto k =
     (if k = ''constructor'' then JNative ''Object''
      else if k = ''__proto__'' then recv_proto
      else if k \<in> set proto_keys then JNative k
      else JUndefined)"

text \<open>\<open>typeof v\<close>.\<close>

fun typeof :: "jsval \<Rightarrow> string" where
  "typeof JUndefined = ''undefined''"
| "typeof JNull = ''object''"
| "typeof (JStr s) = ''string''"
| "typeof (JNum n) = ''number''"
| "typeof (JObj kvs) = ''object''"
| "typeof JProto = ''object''"
| "typeof (JNative n) = ''function''"

text \<open>Truthiness, as \<open>&&\<close>, \<open>||\<close> and \<open>Boolean\<close> test it.\<close>

fun truthy :: "jsval \<Rightarrow> bool" where
  "truthy JUndefined = False"
| "truthy JNull = False"
| "truthy (JStr s) = (s \<noteq> [])"
| "truthy (JNum n) = (n \<noteq> 0)"
| "truthy (JObj kvs) = True"
| "truthy JProto = True"
| "truthy (JNative n) = True"

text \<open>\<open>k in v\<close> for a value \<open>v\<close> that is an object: own properties, then the prototype chain.\<close>

fun has_property :: "jsval \<Rightarrow> string \<Rightarrow> bool" where
  "has_property (JObj kvs) k = (k \<in> set (map fst kvs) \<or> k \<in> set proto_keys)"
| "has_property JProto k = (k \<in> set proto_keys)"
| "has_property v k = False"

text \<open>
  \<open>v[k]\<close>: the own property when there is one, else the inherited one, else
  \<open>undefined\<close>. No token object or variant table repeats a key, so the first entry of
  the association list is the property. The getters and the resolver only index objects.
\<close>

fun get_property :: "jsval \<Rightarrow> string \<Rightarrow> jsval" where
  "get_property (JObj kvs) k =
     (case map_of kvs k of Some v \<Rightarrow> v | None \<Rightarrow> proto_get JProto k)"
| "get_property JProto k = proto_get JNull k"
| "get_property v k = JUndefined"

text \<open>Decimal rendering of a number, as \<open>Number.prototype.toString\<close> gives for integers.\<close>

definition digit_char :: "nat \<Rightarrow> char" where
  "digit_char d = ''0123456789'' ! d"

fun string_of_nat :: "nat \<Rightarrow> string" where
  "string_of_nat n =
     (if n < 10 then [digit_char n] else string_of_nat (n div 10) @ [digit_char (n mod 10)])"

declare string_of_nat.simps [simp del]

definition string_of_int :: "int \<Rightarrow> string" where
  "string_of_int i = (if i < 0 then CHR ''-'' # string_of_nat (nat (- i)) else string_of_nat (nat i))"

text \<open>
  \<open>ToString\<close>, as a template literal applies it to an interpolated value. A built-in
  function prints as its native-code source text; an ordinary object prints through
  \<open>Object.prototype.toString\<close>.
\<close>

fun to_string :: "jsval \<Rightarrow> string" where
  "to_string JUndefined = ''undefined''"
| "to_string JNull = ''null''"
| "to_string (JStr s) = s"
| "to_string (JNum n) = string_of_int n"
| "to_string (JObj kvs) = ''[object Object]''"
| "to_string JProto = ''[object Object]''"
| "to_string (JNative n) = ''function '' @ n @ ''() { [native code] }''"

section \<open>The button variant resolver (primitives/Button/variants.ts)\<close>

text \<open>
  The selection object \<open>{ variant?: string; size?: string }\<close>: an absent (or
  \<open>undefined\<close>) field is \<open>None\<close>. The field \<open>size\<close> is \<open>size_sel\<close> here, \<open>size\<close> being
  a constant of the logic.
\<close>

record selection =
  variant :: "string option"
  size_sel :: "string option"

definition baseClasses :: string where
  "baseClasses = ''inline-flex items-center justify-center rounded-md font-medium transition-colors focus:outline-none focus:ring-2 focus:ring-offset-2 disabled:opacity-50 disabled:cursor-not-allowed''"

definition variantClasses :: jsval where
  "variantClasses = JObj
     [(''primary'', JStr ''bg-blue-600 text-white hover:bg-blue-700 focus:ring-blue-500''),
      (''secondary'', JStr ''bg-gray-200 text-gray-900 hover:bg-gray-300 focus:ring-gray-500''),
      (''outline'', JStr ''border border-gray-300 bg-transparent hover:bg-gray-50 focus:ring-gray-500''),
      (''ghost'', JStr ''bg-transparent hover:bg-gray-100 focus:ring-gray-500'')]"

definition sizeClasses :: jsval where
  "sizeClasses = JObj
     [(''sm'', JStr ''h-8 px-3 text-sm''),
      (''md'', JStr ''h-10 px-4 text-base''),
      (''lg'', JStr ''h-12 px-6 text-lg'')]"

text \<open>\<open>a || b\<close>.\<close>

definition js_or :: "jsval \<Rightarrow> jsval \<Rightarrow> jsval" where
  "js_or a b = (if truthy a then a else b)"

text \<open>
  The two interpolated expressions of the returned template literal:
  \<open>variantClasses[variant] || variantClasses.primary\<close> and
  \<open>sizeClasses[size] || sizeClasses.md\<close>.
\<close>

definition variantFragment :: "string \<Rightarrow> jsval" where
  "variantFragment v = js_or (get_property variantClasses v) (get_property variantClasses ''primary'')"

definition sizeFragment :: "string \<Rightarrow> jsval" where
  "sizeFragment s = js_or (get_property sizeClasses s) (get_property sizeClasses ''md'')"

text \<open>
  \<open>getButtonVariants()\<close> returns a closure; the model is the closure applied to a
  selection. The destructuring defaults \<open>variant = 'primary'\<close>, \<open>size = 'md'\<close> apply to
  absent fields.
\<close>

definition getButtonVariants :: "selection \<Rightarrow> string" where
  "getButtonVariants sel =
     (let v = (case variant sel of None \<Rightarrow> ''primary'' | Some x \<Rightarrow> x);
          s = (case size_sel sel of None \<Rightarrow> ''md'' | Some x \<Rightarrow> x)
      in baseClasses @ '' '' @ to_string (variantFragment v) @ '' '' @ to_string (sizeFragment s))"

text \<open>
  \<open>cn(...classes)\<close> of utils/cn: \<open>classes.filter(Boolean).join(' ')\<close> over arguments of
  type \<open>string | undefined | null | false\<close>.
\<close>

datatype class_arg = CStr string | CUndefined | CNull | CFalse

fun class_truthy :: "class_arg \<Rightarrow> bool" where
  "class_truthy (CStr s) = (s \<noteq> [])"
| "class_truthy a = False"

fun class_text :: "class_arg \<Rightarrow> string" where
  "class_text (CStr s) = s"
| "class_text CUndefined = []"
| "class_text CNull = []"
| "class_text CFalse = ''false''"

text \<open>\<open>Array.prototype.join\<close> on strings.\<close>

fun js_join :: "string \<Rightarrow> string list \<Rightarrow> string" where
  "js_join sep [] = []"
| "js_join sep [x] = x"
| "js_join sep (x # y # ys) = x @ sep @ js_join sep (y # ys)"

definition cn :: "class_arg list \<Rightarrow> string" where
  "cn classes = js_join '' '' (map class_text (filter class_truthy classes))"

text \<open>
  The \<open>className\<close> the Button component renders:
  \<open>cn(variants({ variant, size }), className)\<close>, with the component's own defaults
  \<open>variant = 'primary'\<close>, \<open>size = 'md'\<close> filled in before the resolver is called.
\<close>

definition button_className :: "selection \<Rightarrow> class_arg \<Rightarrow> string" where
  "button_className sel className =
     (let v = (case variant sel of None \<Rightarrow> ''primary'' | Some x \<Rightarrow> x);
          s = (case size_sel sel of None \<Rightarrow> ''md'' | Some x \<Rightarrow> x)
      in cn [CStr (getButtonVariants \<lparr>variant = Some v, size_sel = Some s\<rparr>), className])"

text \<open>\<open>String.prototype.split\<close> with a one-character separator.\<close>

fun split_on :: "char \<Rightarrow> string \<Rightarrow> string list" where
  "split_on c [] = [[]]"
| "split_on c (x # xs) =
     (if x = c then [] # split_on c xs
      else (case split_on c xs of [] \<Rightarrow> [[x]] | w # ws \<Rightarrow> (x # w) # ws))"

text \<open>The class tokens of a class string: its space-separated pieces.\<close>

definition class_tokens :: "string \<Rightarrow> string list" where
  "class_tokens s = split_on CHR '' '' s"

section \<open>String operations the token files use\<close>

text \<open>\<open>s.replace(c, '')\<close> with a one-character string pattern: the first occurrence goes.\<close>

fun js_replace_empty :: "char \<Rightarrow> string \<Rightarrow> string" where
  "js_replace_empty c [] = []"
| "js_replace_empty c (x # xs) = (if x = c then xs else x # js_replace_empty c xs)"

text \<open>
  \<open>s.match(/.{2}/g)\<close>: all non-overlapping matches of two characters, scanning from the
  left; \<open>.\<close> does not match a line terminator. When the match at a position fails the
  scan moves on by one character. No match at all gives \<open>null\<close>.
\<close>

definition line_terminator :: "char \<Rightarrow> bool" where
  "line_terminator c = (c = CHR 0x0A \<or> c = CHR 0x0D)"

fun match_pairs :: "string \<Rightarrow> string list" where
  "match_pairs (a # b # rest) =
     (if \<not> line_terminator a \<and> \<not> line_terminator b then [a, b] # match_pairs rest
      else match_pairs (b # rest))"
| "match_pairs rest = []"

definition js_match_pairs :: "string \<Rightarrow> string list option" where
  "js_match_pairs s = (case match_pairs s of [] \<Rightarrow> None | m # ms \<Rightarrow> Some (m # ms))"

text \<open>
  \<open>parseInt(s, 16)\<close>: leading white space is skipped, then an optional sign, then an
  optional \<open>0x\<close> or \<open>0X\<close>, then the longest run of hexadecimal digits; no digit gives
  \<open>NaN\<close>, here \<open>None\<close>. The result is exact below \<open>2^53\<close>; the token files only parse
  two-character strings.
\<close>

definition white_space :: "char \<Rightarrow> bool" where
  "white_space c = (c \<in> set [CHR 0x09, CHR 0x0A, CHR 0x0B, CHR 0x0C, CHR 0x0D, CHR 0x20, CHR 0xA0])"

definition hex_digit_value :: "char \<Rightarrow> nat option" where
  "hex_digit_value c = map_of
     [(CHR ''0'', 0), (CHR ''1'', 1), (CHR ''2'', 2), (CHR ''3'', 3), (CHR ''4'', 4),
      (CHR ''5'', 5), (CHR ''6'', 6), (CHR ''7'', 7), (CHR ''8'', 8), (CHR ''9'', 9),
      (CHR ''a'', 10), (CHR ''b'', 11), (CHR ''c'', 12), (CHR ''d'', 13), (CHR ''e'', 14),
      (CHR ''f'', 15), (CHR ''A'', 10), (CHR ''B'', 11), (CHR ''C'', 12), (CHR ''D'', 13),
      (CHR ''E'', 14), (CHR ''F'', 15)] c"

fun leading_hex_digits :: "string \<Rightarrow> nat list" where
  "leading_hex_digits [] = []"
| "leading_hex_digits (c # cs) =
     (case hex_digit_value c of None \<Rightarrow> [] | Some d \<Rightarrow> d # leading_hex_digits cs)"

definition parseInt16 :: "string \<Rightarrow> int option" where
  "parseInt16 s =
     (let s1 = dropWhile white_space s;
          sign = (case s1 of c # r \<Rightarrow> if c = CHR ''-'' then - 1 else 1 | [] \<Rightarrow> (1::int));
          s2 = (case s1 of c # r \<Rightarrow> if c = CHR ''-'' \<or> c = CHR ''+'' then r else s1 | [] \<Rightarrow> s1);
          s3 = (case s2 of c # d # r \<Rightarrow>
                  if c = CHR ''0'' \<and> (d = CHR ''x'' \<or> d = CHR ''X'') then r else s2
                | _ \<Rightarrow> s2);
          ds = leading_hex_digits s3
      in if ds = [] then None
         else Some (sign * int (foldl (\<lambda>acc d. 16 * acc + d) 0 ds)))"

text \<open>A number as \<open>Array.prototype.join\<close> prints it.\<close>

definition number_to_string :: "int option \<Rightarrow> string" where
  "number_to_string n = (case n of None \<Rightarrow> ''NaN'' | Some i \<Rightarrow> string_of_int i)"

text \<open>
  The expression every derived shadow entry interpolates into its template literal:
  \<open>hex.replace('#', '').match(/.{2}/g)?.map(hex => parseInt(hex, 16)).join(' ')\<close>.
  When \<open>match\<close> returns \<open>null\<close> the optional chain is \<open>undefined\<close>, which the template
  literal prints as the word.
\<close>

definition rgb_channels :: "string \<Rightarrow> string" where
  "rgb_channels hex =
     (case js_match_pairs (js_replace_empty CHR ''#'' hex) of
        None \<Rightarrow> ''undefined''
      | Some ms \<Rightarrow> js_join '' '' (map (\<lambda>h. number_to_string (parseInt16 h)) ms))"

section \<open>The token store (packages/tokens/src/base)\<close>

subsection \<open>colors.ts\<close>

definition colors_primary :: jsval where
  "colors_primary = JObj
     [(''50'', JStr ''#fafafa''),
      (''100'', JStr ''#f4f4f5''),
      (''400'', JStr ''#a1a1aa''),
      (''500'', JStr ''#71717a''),
      (''700'', JStr ''#404040''),
      (''800'', JStr ''#2d2d2d''),
      (''950'', JStr ''#222222'')]"

definition colors_secondary :: jsval where
  "colors_secondary = JObj
     [(''50'', JStr ''#f8fafc''),
      (''100'', JStr ''#f1f5f9''),
      (''200'', JStr ''#e2e8f0''),
      (''400'', JStr ''#94a3b8''),
      (''500'', JStr ''#64748b'')]"

definition colors_semantic :: jsval where
  "colors_semantic = JObj
     [(''success'', JObj
       [(''100'', JStr ''#d1fae5''),
        (''200'', JStr ''#a7f3d0''),
        (''500'', JStr ''#10b981''),
        (''600'', JStr ''#059669''),
        (''700'', JStr ''#047857'')]),
      (''error'', JObj
       [(''50'', JStr ''#fef2f2''),
        (''100'', JStr ''#fee2e2''),
        (''200'', JStr ''#fecaca''),
        (''500'', JStr ''#ef4444''),
        (''600'', JStr ''#dc2626''),
        (''700'', JStr ''#b91c1c'')]),
      (''warning'', JObj
       [(''50'', JStr ''#fffbeb''),
        (''100'', JStr ''#fef3c7''),
        (''200'', JStr ''#fde68a''),
        (''400'', JStr ''#fbbf24''),
        (''500'', JStr ''#f59e0b'')]),
      (''info'', JObj
       [(''100'', JStr ''#cffafe''),
        (''200'', JStr ''#a5f3fc''),
        (''500'', JStr ''#06b6d4''),
        (''600'', JStr ''#0891b2'')])]"

definition colors :: jsval where
  "colors = JObj
     [(''primary'', colors_primary),
      (''secondary'', colors_secondary),
      (''semantic'', colors_semantic)]"

text \<open>
  A static read such as \<open>colors.semantic.error[500]\<close> in another token file. TypeScript
  types each such read as a string literal; \<open>color_reads_are_strings\<close> below checks
  that every read the shadow file makes lands on a string.
\<close>

definition color_at :: "string list \<Rightarrow> string" where
  "color_at ks = (case foldl get_property colors ks of JStr s \<Rightarrow> s | _ \<Rightarrow> [])"

subsection \<open>spacing.ts\<close>

definition spacing_component :: jsval where
  "spacing_component = JObj
     [(''xs'', JStr ''0.25rem''),
      (''sm'', JStr ''0.5rem''),
      (''md'', JStr ''1rem''),
      (''lg'', JStr ''1.5rem''),
      (''xl'', JStr ''2rem''),
      (''2xl'', JStr ''3rem'')]"

definition spacing_layout :: jsval where
  "spacing_layout = JObj
     [(''xs'', JStr ''1rem''),
      (''sm'', JStr ''2rem''),
      (''md'', JStr ''3rem''),
      (''lg'', JStr ''4rem''),
      (''xl'', JStr ''6rem''),
      (''2xl'', JStr ''12rem'')]"

definition spacing_grid :: jsval where
  "spacing_grid = JObj
     [(''xs'', JStr ''0.25rem''),
      (''sm'', JStr ''0.5rem''),
      (''md'', JStr ''1rem''),
      (''lg'', JStr ''1.5rem''),
      (''xl'', JStr ''2rem''),
      (''2xl'', JStr ''3rem''),
      (''3xl'', JStr ''4rem''),
      (''4xl'', JStr ''5rem'')]"

definition spacing_stack :: jsval where
  "spacing_stack = JObj
     [(''xs'', JStr ''0.5rem''),
      (''sm'', JStr ''1rem''),
      (''md'', JStr ''1.5rem''),
      (''lg'', JStr ''2rem'')]"

definition spacing_inline :: jsval where
  "spacing_inline = JObj
     [(''xs'', JStr ''0.5rem''),
      (''sm'', JStr ''0.75rem''),
      (''md'', JStr ''1rem'')]"

definition spacing_container :: jsval where
  "spacing_container = JObj
     [(''mobile'', JStr ''1.5rem''),
      (''desktop'', JStr ''4rem''),
      (''responsive'', JObj
       [(''standard'', JObj
         [(''base'', JStr ''1.5rem''),
          (''lg'', JStr ''4rem'')]),
        (''admin'', JObj
         [(''base'', JStr ''1rem''),
          (''sm'', JStr ''1.5rem''),
          (''lg'', JStr ''2rem'')]),
        (''compact'', JObj
         [(''base'', JStr ''1rem''),
          (''sm'', JStr ''1.5rem'')])])]"

definition spacing_responsive :: jsval where
  "spacing_responsive = JObj
     [(''section'', JObj
       [(''bottom'', JObj
         [(''base'', JStr ''6rem''),
          (''sm'', JStr ''12rem'')]),
        (''top'', JObj
         [(''base'', JStr ''3rem''),
          (''sm'', JStr ''6rem'')])]),
      (''gap'', JObj
       [(''adaptive'', JObj
         [(''base'', JStr ''0.5rem''),
          (''sm'', JStr ''1rem''),
          (''lg'', JStr ''1.5rem'')]),
        (''standard'', JObj
         [(''base'', JStr ''1rem''),
          (''lg'', JStr ''1.5rem'')])])]"

definition spacing :: jsval where
  "spacing = JObj
     [(''component'', spacing_component),
      (''layout'', spacing_layout),
      (''grid'', spacing_grid),
      (''stack'', spacing_stack),
      (''inline'', spacing_inline),
      (''container'', spacing_container),
      (''responsive'', spacing_responsive)]"

subsection \<open>z-index.ts\<close>

definition zIndex_base :: jsval where
  "zIndex_base = JObj
     [(''behind'', JNum (-1)),
      (''default'', JNum 0),
      (''above'', JNum 1)]"

definition zIndex_content :: jsval where
  "zIndex_content = JObj
     [(''background'', JNum 0),
      (''content'', JNum 10),
      (''foreground'', JNum 20)]"

definition zIndex_navigation :: jsval where
  "zIndex_navigation = JObj
     [(''popover'', JNum 10),
      (''dropdown'', JNum 10),
      (''mobileMenu'', JNum 20),
      (''header'', JNum 30),
      (''adminHeader'', JNum 40)]"

definition zIndex_overlay :: jsval where
  "zIndex_overlay = JObj
     [(''backdrop'', JNum 40),
      (''drawer'', JNum 50),
      (''modal'', JNum 50),
      (''loading'', JNum 50)]"

definition zIndex_popup :: jsval where
  "zIndex_popup = JObj
     [(''dropdown'', JNum 10),
      (''tooltip'', JNum 30),
      (''popover'', JNum 40),
      (''notification'', JNum 50),
      (''contextMenu'', JNum 50)]"

definition zIndex_sticky :: jsval where
  "zIndex_sticky = JObj
     [(''content'', JNum 30),
      (''header'', JNum 40),
      (''fab'', JNum 50),
      (''navigation'', JNum 50)]"

definition zIndex_maximum :: jsval where
  "zIndex_maximum = JObj
     [(''loading'', JNum 9999),
      (''emergency'', JNum 10000)]"

definition zIndex_components :: jsval where
  "zIndex_components = JObj
     [(''card'', JObj
       [(''default'', JNum 0),
        (''hover'', JNum 1),
        (''selected'', JNum 2)]),
      (''form'', JObj
       [(''dropdown'', JNum 10),
        (''autocomplete'', JNum 10),
        (''validation'', JNum 20),
        (''overlay'', JNum 50)]),
      (''navigation'', JObj
       [(''popover'', JNum 10),
        (''dropdown'', JNum 10),
        (''mobile'', JNum 20),
        (''header'', JNum 40)]),
      (''modal'', JObj
       [(''backdrop'', JNum 40),
        (''dialog'', JNum 50),
        (''loading'', JNum 50)]),
      (''admin'', JObj
       [(''sidebar'', JNum 50),
        (''header'', JNum 40),
        (''dropdown'', JNum 10),
        (''modal'', JNum 50)]),
      (''notification'', JObj
       [(''toast'', JNum 50),
        (''banner'', JNum 30),
        (''badge'', JNum 20)])]"

definition zIndex_states :: jsval where
  "zIndex_states = JObj
     [(''hover'', JObj
       [(''card'', JNum 1),
        (''button'', JNum 1),
        (''interactive'', JNum 2)]),
      (''focus'', JObj
       [(''element'', JNum 10),
        (''modal'', JNum 50)]),
      (''active'', JObj
       [(''element'', JNum 2),
        (''selected'', JNum 5)]),
      (''disabled'', JObj
       [(''element'', JNum 0)])]"

definition zIndex_utilities :: jsval where
  "zIndex_utilities = JObj
     [(''hide'', JNum (-1)),
      (''default'', JNum 0),
      (''raise'', JNum 1),
      (''above'', JNum 10),
      (''nav'', JNum 20),
      (''header'', JNum 40),
      (''overlay'', JNum 50),
      (''max'', JNum 9999)]"

definition zIndex :: jsval where
  "zIndex = JObj
     [(''base'', zIndex_base),
      (''content'', zIndex_content),
      (''navigation'', zIndex_navigation),
      (''overlay'', zIndex_overlay),
      (''popup'', zIndex_popup),
      (''sticky'', zIndex_sticky),
      (''maximum'', zIndex_maximum),
      (''components'', zIndex_components),
      (''states'', zIndex_states),
      (''utilities'', zIndex_utilities)]"

subsection \<open>shadows.ts\<close>

definition shadows_elevation :: jsval where
  "shadows_elevation = JObj
     [(''none'', JStr ''none''),
      (''xs'', JStr ''0 1px 2px 0 rgb(0 0 0 / 0.05)''),
      (''sm'', JStr ''0 1px 3px 0 rgb(0 0 0 / 0.1), 0 1px 2px 0 rgb(0 0 0 / 0.06)''),
      (''md'', JStr ''0 4px 6px -1px rgb(0 0 0 / 0.1), 0 2px 4px -1px rgb(0 0 0 / 0.06)''),
      (''lg'', JStr ''0 10px 15px -3px rgb(0 0 0 / 0.1), 0 4px 6px -2px rgb(0 0 0 / 0.05)''),
      (''xl'', JStr ''0 20px 25px -5px rgb(0 0 0 / 0.1), 0 10px 10px -5px rgb(0 0 0 / 0.04)''),
      (''2xl'', JStr ''0 25px 50px -12px rgb(0 0 0 / 0.25)''),
      (''custom'', JStr ''0px 6px 20px 0px rgba(0, 0, 0, 0.2)'')]"

definition shadows_colors :: jsval where
  "shadows_colors = JObj
     [(''default'', JStr ''rgb(0 0 0 / 0.1)''),
      (''subtle'', JStr ''rgb(0 0 0 / 0.05)''),
      (''strong'', JStr ''rgb(0 0 0 / 0.25)''),
      (''primary'', JStr (''rgb('' @ rgb_channels (color_at [''primary'', ''950'']) @ '' / 0.1)'')),
      (''secondary'', JStr (''rgb('' @ rgb_channels (color_at [''secondary'', ''500'']) @ '' / 0.1)'')),
      (''success'', JStr (''rgb('' @ rgb_channels (color_at [''semantic'', ''success'', ''500'']) @ '' / 0.2)'')),
      (''error'', JStr (''rgb('' @ rgb_channels (color_at [''semantic'', ''error'', ''500'']) @ '' / 0.2)'')),
      (''warning'', JStr (''rgb('' @ rgb_channels (color_at [''semantic'', ''warning'', ''500'']) @ '' / 0.2)'')),
      (''info'', JStr (''rgb('' @ rgb_channels (color_at [''semantic'', ''info'', ''500'']) @ '' / 0.2)'')),
      (''email'', JObj
       [(''button'', JStr ''rgba(79, 70, 229, 0.3)''),
        (''card'', JStr ''rgba(0, 0, 0, 0.1)'')])]"

definition shadows_interactive :: jsval where
  "shadows_interactive = JObj
     [(''hover'', JObj
       [(''subtle'', JStr ''0 4px 6px -1px rgb(0 0 0 / 0.1), 0 2px 4px -1px rgb(0 0 0 / 0.06)''),
        (''moderate'', JStr ''0 10px 15px -3px rgb(0 0 0 / 0.1), 0 4px 6px -2px rgb(0 0 0 / 0.05)''),
        (''strong'', JStr ''0 20px 25px -5px rgb(0 0 0 / 0.1), 0 10px 10px -5px rgb(0 0 0 / 0.04)'')]),
      (''focus'', JObj
       [(''default'', JStr (''0 0 0 3px rgb('' @ rgb_channels (color_at [''primary'', ''950'']) @ '' / 0.1)'')),
        (''error'', JStr (''0 0 0 3px rgb('' @ rgb_channels (color_at [''semantic'', ''error'', ''500'']) @ '' / 0.1)'')),
        (''success'', JStr (''0 0 0 3px rgb('' @ rgb_channels (color_at [''semantic'', ''success'', ''500'']) @ '' / 0.1)''))]),
      (''active'', JObj
       [(''pressed'', JStr ''0 1px 2px 0 rgb(0 0 0 / 0.05)''),
        (''selected'', JStr ''0 0 0 2px rgb(0 0 0 / 0.1)'')]),
      (''disabled'', JObj
       [(''shadow'', JStr ''0 1px 2px 0 rgb(0 0 0 / 0.05)''),
        (''opacity'', JStr ''0.5'')])]"

definition shadows_semantic :: jsval where
  "shadows_semantic = JObj
     [(''success'', JObj
       [(''subtle'', JStr (''0 1px 3px 0 rgb('' @ rgb_channels (color_at [''semantic'', ''success'', ''500'']) @ '' / 0.1)'')),
        (''moderate'', JStr (''0 4px 6px -1px rgb('' @ rgb_channels (color_at [''semantic'', ''success'', ''500'']) @ '' / 0.1)'')),
        (''strong'', JStr (''0 10px 15px -3px rgb('' @ rgb_channels (color_at [''semantic'', ''success'', ''500'']) @ '' / 0.2)''))]),
      (''error'', JObj
       [(''subtle'', JStr (''0 1px 3px 0 rgb('' @ rgb_channels (color_at [''semantic'', ''error'', ''500'']) @ '' / 0.1)'')),
        (''moderate'', JStr (''0 4px 6px -1px rgb('' @ rgb_channels (color_at [''semantic'', ''error'', ''500'']) @ '' / 0.1)'')),
        (''strong'', JStr (''0 10px 15px -3px rgb('' @ rgb_channels (color_at [''semantic'', ''error'', ''500'']) @ '' / 0.2)''))]),
      (''warning'', JObj
       [(''subtle'', JStr (''0 1px 3px 0 rgb('' @ rgb_channels (color_at [''semantic'', ''warning'', ''500'']) @ '' / 0.1)'')),
        (''moderate'', JStr (''0 4px 6px -1px rgb('' @ rgb_channels (color_at [''semantic'', ''warning'', ''500'']) @ '' / 0.1)'')),
        (''strong'', JStr (''0 10px 15px -3px rgb('' @ rgb_channels (color_at [''semantic'', ''warning'', ''500'']) @ '' / 0.2)''))]),
      (''info'', JObj
       [(''subtle'', JStr (''0 1px 3px 0 rgb('' @ rgb_channels (color_at [''semantic'', ''info'', ''500'']) @ '' / 0.1)'')),
        (''moderate'', JStr (''0 4px 6px -1px rgb('' @ rgb_channels (color_at [''semantic'', ''info'', ''500'']) @ '' / 0.1)'')),
        (''strong'', JStr (''0 10px 15px -3px rgb('' @ rgb_channels (color_at [''semantic'', ''info'', ''500'']) @ '' / 0.2)''))])]"

definition shadows_components :: jsval where
  "shadows_components = JObj
     [(''card'', JObj
       [(''skeleton'', JStr ''0 1px 3px 0 rgb(0 0 0 / 0.1), 0 1px 2px 0 rgb(0 0 0 / 0.06)''),
        (''default'', JStr ''0px 6px 20px 0px rgba(0, 0, 0, 0.2)''),
        (''interactive'', JObj
         [(''default'', JStr ''0px 6px 20px 0px rgba(0, 0, 0, 0.2)''),
          (''hover'', JStr ''0 10px 15px -3px rgb(0 0 0 / 0.1), 0 4px 6px -2px rgb(0 0 0 / 0.05)'')]),
        (''elevated'', JStr ''0 20px 25px -5px rgb(0 0 0 / 0.1), 0 10px 10px -5px rgb(0 0 0 / 0.04)'')]),
      (''button'', JObj
       [(''primary'', JStr ''none''),
        (''secondary'', JStr ''0 1px 3px 0 rgb(0 0 0 / 0.1), 0 1px 2px 0 rgb(0 0 0 / 0.06)''),
        (''outline'', JStr ''0 1px 3px 0 rgb(0 0 0 / 0.1), 0 1px 2px 0 rgb(0 0 0 / 0.06)''),
        (''floating'', JStr ''0px 6px 20px 0px rgba(0, 0, 0, 0.2)''),
        (''hover'', JObj
         [(''secondary'', JStr ''0 4px 6px -1px rgb(0 0 0 / 0.1), 0 2px 4px -1px rgb(0 0 0 / 0.06)''),
          (''outline'', JStr ''0 4px 6px -1px rgb(0 0 0 / 0.1), 0 2px 4px -1px rgb(0 0 0 / 0.06)'')])]),
      (''modal'', JObj
       [(''default'', JStr ''0 20px 25px -5px rgb(0 0 0 / 0.1), 0 10px 10px -5px rgb(0 0 0 / 0.04)''),
        (''large'', JStr ''0 25px 50px -12px rgb(0 0 0 / 0.25)''),
        (''backdrop'', JStr ''rgba(0, 0, 0, 0.5)'')]),
      (''dropdown'', JObj
       [(''default'', JStr ''0px 6px 20px 0px rgba(0, 0, 0, 0.2)''),
        (''admin'', JStr ''0 10px 15px -3px rgb(0 0 0 / 0.1), 0 4px 6px -2px rgb(0 0 0 / 0.05)''),
        (''select'', JStr ''0 10px 15px -3px rgb(0 0 0 / 0.1), 0 4px 6px -2px rgb(0 0 0 / 0.05)'')]),
      (''navigation'', JObj
       [(''header'', JStr ''0 1px 3px 0 rgb(0 0 0 / 0.1), 0 1px 2px 0 rgb(0 0 0 / 0.06)''),
        (''mobile'', JStr ''0 10px 15px -3px rgb(0 0 0 / 0.1), 0 4px 6px -2px rgb(0 0 0 / 0.05)''),
        (''popover'', JStr ''0px 6px 20px 0px rgba(0, 0, 0, 0.2)'')]),
      (''form'', JObj
       [(''input'', JStr ''none''),
        (''inputFocus'', JStr (''0 0 0 2px rgb('' @ rgb_channels (color_at [''primary'', ''950'']) @ '' / 0.1)'')),
        (''inputError'', JStr (''0 0 0 2px rgb('' @ rgb_channels (color_at [''semantic'', ''error'', ''500'']) @ '' / 0.1)'')),
        (''container'', JStr ''0px 6px 20px 0px rgba(0, 0, 0, 0.2)'')]),
      (''tooltip'', JObj
       [(''default'', JStr ''0px 6px 20px 0px rgba(0, 0, 0, 0.2)''),
        (''subtle'', JStr ''0 4px 6px -1px rgb(0 0 0 / 0.1), 0 2px 4px -1px rgb(0 0 0 / 0.06)'')]),
      (''loading'', JObj
       [(''skeleton'', JStr ''0 1px 3px 0 rgb(0 0 0 / 0.1), 0 1px 2px 0 rgb(0 0 0 / 0.06)''),
        (''spinner'', JStr ''none'')])]"

definition shadows_special :: jsval where
  "shadows_special = JObj
     [(''inner'', JObj
       [(''subtle'', JStr ''inset 0 1px 2px 0 rgb(0 0 0 / 0.05)''),
        (''moderate'', JStr ''inset 0 2px 4px 0 rgb(0 0 0 / 0.1)''),
        (''strong'', JStr ''inset 0 4px 8px 0 rgb(0 0 0 / 0.15)'')]),
      (''glow'', JObj
       [(''primary'', JStr (''0 0 20px rgb('' @ rgb_channels (color_at [''primary'', ''950'']) @ '' / 0.3)'')),
        (''success'', JStr (''0 0 20px rgb('' @ rgb_channels (color_at [''semantic'', ''success'', ''500'']) @ '' / 0.3)'')),
        (''error'', JStr (''0 0 20px rgb('' @ rgb_channels (color_at [''semantic'', ''error'', ''500'']) @ '' / 0.3)'')),
        (''warning'', JStr (''0 0 20px rgb('' @ rgb_channels (color_at [''semantic'', ''warning'', ''500'']) @ '' / 0.3)'')),
        (''info'', JStr (''0 0 20px rgb('' @ rgb_channels (color_at [''semantic'', ''info'', ''500'']) @ '' / 0.3)''))]),
      (''layered'', JObj
       [(''card'', JStr ''0 1px 3px 0 rgb(0 0 0 / 0.1), 0 1px 2px 0 rgb(0 0 0 / 0.06), 0 0 0 1px rgb(0 0 0 / 0.05)''),
        (''modal'', JStr ''0 20px 25px -5px rgb(0 0 0 / 0.1), 0 10px 10px -5px rgb(0 0 0 / 0.04), 0 0 0 1px rgb(0 0 0 / 0.05)'')]),
      (''email'', JObj
       [(''button'', JStr ''0 4px 12px rgba(79, 70, 229, 0.3)''),
        (''card'', JStr ''0 4px 6px -1px rgba(0, 0, 0, 0.1)''),
        (''container'', JStr ''0 2px 4px rgba(0, 0, 0, 0.1)'')])]"

definition shadows_utilities :: jsval where
  "shadows_utilities = JObj
     [(''none'', JStr ''none''),
      (''subtle'', JStr ''0 1px 3px 0 rgb(0 0 0 / 0.1), 0 1px 2px 0 rgb(0 0 0 / 0.06)''),
      (''default'', JStr ''0 4px 6px -1px rgb(0 0 0 / 0.1), 0 2px 4px -1px rgb(0 0 0 / 0.06)''),
      (''moderate'', JStr ''0 10px 15px -3px rgb(0 0 0 / 0.1), 0 4px 6px -2px rgb(0 0 0 / 0.05)''),
      (''strong'', JStr ''0 20px 25px -5px rgb(0 0 0 / 0.1), 0 10px 10px -5px rgb(0 0 0 / 0.04)''),
      (''custom'', JStr ''0px 6px 20px 0px rgba(0, 0, 0, 0.2)''),
      (''transition'', JStr ''box-shadow 0.15s ease-in-out''),
      (''transitionAll'', JStr ''all 0.15s ease-in-out''),
      (''ring'', JStr (''0 0 0 2px rgb('' @ rgb_channels (color_at [''primary'', ''950'']) @ '' / 0.1)'')),
      (''ringError'', JStr (''0 0 0 2px rgb('' @ rgb_channels (color_at [''semantic'', ''error'', ''500'']) @ '' / 0.1)'')),
      (''ringSuccess'', JStr (''0 0 0 2px rgb('' @ rgb_channels (color_at [''semantic'', ''success'', ''500'']) @ '' / 0.1)''))]"

definition shadows :: jsval where
  "shadows = JObj
     [(''elevation'', shadows_elevation),
      (''colors'', shadows_colors),
      (''interactive'', shadows_interactive),
      (''semantic'', shadows_semantic),
      (''components'', shadows_components),
      (''special'', shadows_special),
      (''utilities'', shadows_utilities)]"

subsection \<open>breakpoints.ts\<close>

definition breakpoints_screens :: jsval where
  "breakpoints_screens = JObj
     [(''sm'', JStr ''640px''),
      (''md'', JStr ''768px''),
      (''lg'', JStr ''1024px''),
      (''xl'', JStr ''1280px''),
      (''2xl'', JStr ''1536px'')]"

definition breakpoints_containers :: jsval where
  "breakpoints_containers = JObj
     [(''sm'', JStr ''640px''),
      (''md'', JStr ''768px''),
      (''lg'', JStr ''1024px''),
      (''xl'', JStr ''1280px''),
      (''2xl'', JStr ''1536px''),
      (''content'', JObj
       [(''xs'', JStr ''320px''),
        (''sm'', JStr ''384px''),
        (''md'', JStr ''448px''),
        (''lg'', JStr ''512px''),
        (''xl'', JStr ''576px''),
        (''2xl'', JStr ''672px''),
        (''3xl'', JStr ''768px''),
        (''4xl'', JStr ''896px''),
        (''5xl'', JStr ''1024px'')])]"

definition breakpoints_grid :: jsval where
  "breakpoints_grid = JObj
     [(''columns'', JObj
       [(''mobile'', JNum 1),
        (''tablet'', JNum 2),
        (''desktop'', JNum 3),
        (''wide'', JNum 4)]),
      (''patterns'', JObj
       [(''standard'', JObj
         [(''base'', JNum 1),
          (''lg'', JNum 2),
          (''2xl'', JNum 3)]),
        (''admin'', JObj
         [(''base'', JNum 2),
          (''md'', JNum 4)]),
        (''features'', JObj
         [(''base'', JNum 1),
          (''sm'', JNum 2)]),
        (''coverage'', JObj
         [(''base'', JNum 2),
          (''sm'', JNum 3),
          (''lg'', JNum 4)])])]"

definition breakpoints_typography :: jsval where
  "breakpoints_typography = JObj
     [(''headings'', JObj
       [(''hero'', JObj
         [(''base'', JStr ''3rem''),
          (''sm'', JStr ''3.75rem'')]),
        (''section'', JObj
         [(''base'', JStr ''1.5rem''),
          (''sm'', JStr ''2.25rem'')]),
        (''subsection'', JObj
         [(''base'', JStr ''1.25rem''),
          (''sm'', JStr ''1.5rem'')])]),
      (''body'', JObj
       [(''default'', JObj
         [(''base'', JStr ''0.875rem''),
          (''sm'', JStr ''1rem'')]),
        (''large'', JObj
         [(''base'', JStr ''1rem''),
          (''sm'', JStr ''1.125rem'')])])]"

definition breakpoints_spacing :: jsval where
  "breakpoints_spacing = JObj
     [(''container'', JObj
       [(''standard'', JObj
         [(''base'', JStr ''1.5rem''),
          (''lg'', JStr ''4rem'')]),
        (''admin'', JObj
         [(''base'', JStr ''1rem''),
          (''sm'', JStr ''1.5rem''),
          (''lg'', JStr ''2rem'')]),
        (''compact'', JObj
         [(''base'', JStr ''1rem''),
          (''sm'', JStr ''1.5rem'')])]),
      (''section'', JObj
       [(''bottom'', JObj
         [(''base'', JStr ''6rem''),
          (''sm'', JStr ''12rem'')]),
        (''top'', JObj
         [(''base'', JStr ''3rem''),
          (''sm'', JStr ''6rem'')]),
        (''combined'', JObj
         [(''base'', JStr ''3rem''),
          (''sm'', JStr ''6rem'')])]),
      (''gap'', JObj
       [(''standard'', JObj
         [(''base'', JStr ''1rem''),
          (''lg'', JStr ''1.5rem'')]),
        (''small'', JObj
         [(''base'', JStr ''0.5rem''),
          (''sm'', JStr ''1rem'')]),
        (''large'', JObj
         [(''base'', JStr ''1.5rem''),
          (''lg'', JStr ''2rem'')])])]"

definition breakpoints_layout :: jsval where
  "breakpoints_layout = JObj
     [(''direction'', JObj
       [(''standard'', JObj
         [(''base'', JStr ''column''),
          (''sm'', JStr ''row'')]),
        (''reverse'', JObj
         [(''base'', JStr ''row''),
          (''sm'', JStr ''column'')])]),
      (''visibility'', JObj
       [(''desktop'', JObj
         [(''base'', JStr ''hidden''),
          (''sm'', JStr ''flex'')]),
        (''mobile'', JObj
         [(''base'', JStr ''block''),
          (''sm'', JStr ''hidden'')]),
        (''responsive'', JObj
         [(''base'', JStr ''hidden''),
          (''md'', JStr ''block'')])]),
      (''basis'', JObj
       [(''half'', JObj
         [(''base'', JStr ''100%''),
          (''md'', JStr ''50%'')]),
        (''third'', JObj
         [(''base'', JStr ''100%''),
          (''lg'', JStr ''33.333333%'')]),
        (''quarter'', JObj
         [(''base'', JStr ''100%''),
          (''xl'', JStr ''25%'')])])]"

definition breakpoints_navigation :: jsval where
  "breakpoints_navigation = JObj
     [(''mobile'', JObj
       [(''hamburger'', JObj
         [(''show'', JStr ''0px''),
          (''hide'', JStr ''768px'')]),
        (''overlay'', JObj
         [(''show'', JStr ''0px''),
          (''hide'', JStr ''1024px'')])]),
      (''desktop'', JObj
       [(''main'', JObj
         [(''show'', JStr ''768px''),
          (''hide'', JStr ''0px'')]),
        (''secondary'', JObj
         [(''show'', JStr ''1024px''),
          (''hide'', JStr ''0px'')])]),
      (''container'', JObj
       [(''header'', JObj
         [(''base'', JStr ''1.5rem''),
          (''lg'', JStr ''4rem'')]),
        (''height'', JObj
         [(''mobile'', JStr ''4rem''),
          (''desktop'', JStr ''5rem'')])])]"

definition breakpoints_components :: jsval where
  "breakpoints_components = JObj
     [(''button'', JObj
       [(''padding'', JObj
         [(''base'', JObj
           [(''y'', JStr ''0.625rem''),
            (''x'', JStr ''1.5rem'')]),
          (''sm'', JObj
           [(''y'', JStr ''0.75rem''),
            (''x'', JStr ''2rem'')])]),
        (''text'', JObj
         [(''base'', JStr ''0.875rem''),
          (''sm'', JStr ''1rem'')])]),
      (''card'', JObj
       [(''padding'', JObj
         [(''base'', JStr ''1rem''),
          (''sm'', JStr ''1.5rem''),
          (''lg'', JStr ''2rem'')]),
        (''gap'', JObj
         [(''base'', JStr ''1rem''),
          (''sm'', JStr ''1.5rem'')])]),
      (''form'', JObj
       [(''container'', JObj
         [(''base'', JStr ''32rem''),
          (''sm'', JStr ''42rem'')]),
        (''padding'', JObj
         [(''base'', JStr ''1.5rem''),
          (''sm'', JStr ''2.5rem'')])]),
      (''modal'', JObj
       [(''width'', JObj
         [(''base'', JStr ''100%''),
          (''sm'', JStr ''28rem''),
          (''lg'', JStr ''32rem'')]),
        (''padding'', JObj
         [(''base'', JStr ''1rem''),
          (''sm'', JStr ''1.5rem'')])])]"

definition breakpoints_utilities :: jsval where
  "breakpoints_utilities = JObj
     [(''show'', JObj
       [(''mobile'', JObj
         [(''base'', JStr ''block''),
          (''sm'', JStr ''hidden'')]),
        (''tablet'', JObj
         [(''base'', JStr ''hidden''),
          (''sm'', JStr ''block''),
          (''lg'', JStr ''hidden'')]),
        (''desktop'', JObj
         [(''base'', JStr ''hidden''),
          (''lg'', JStr ''block'')])]),
      (''textAlign'', JObj
       [(''center'', JObj
         [(''base'', JStr ''center''),
          (''sm'', JStr ''left'')]),
        (''responsive'', JObj
         [(''base'', JStr ''left''),
          (''sm'', JStr ''center''),
          (''lg'', JStr ''left'')])]),
      (''margin'', JObj
       [(''section'', JObj
         [(''base'', JStr ''3rem''),
          (''sm'', JStr ''6rem'')]),
        (''component'', JObj
         [(''base'', JStr ''1rem''),
          (''sm'', JStr ''2rem'')])]),
      (''padding'', JObj
       [(''container'', JObj
         [(''base'', JStr ''1.5rem''),
          (''lg'', JStr ''4rem'')]),
        (''section'', JObj
         [(''base'', JStr ''2rem''),
          (''sm'', JStr ''3rem'')])])]"

definition breakpoints :: jsval where
  "breakpoints = JObj
     [(''screens'', breakpoints_screens),
      (''containers'', breakpoints_containers),
      (''grid'', breakpoints_grid),
      (''typography'', breakpoints_typography),
      (''spacing'', breakpoints_spacing),
      (''layout'', breakpoints_layout),
      (''navigation'', breakpoints_navigation),
      (''components'', breakpoints_components),
      (''utilities'', breakpoints_utilities)]"

subsection \<open>The path getters\<close>

text \<open>A thrown \<open>new Error(message)\<close>.\<close>

datatype js_error = Error string

text \<open>
  The loop shared by every getter:
  \<^verbatim>\<open>for (const key of keys) {
    if (value && typeof value === 'object' && key in value) value = value[key];
    else throw new Error(`... path "${path}" not found`);
  }\<close>
  \<open>None\<close> is the throw.
\<close>

fun walk :: "jsval \<Rightarrow> string list \<Rightarrow> jsval option" where
  "walk v [] = Some v"
| "walk v (key # keys) =
     (if truthy v \<and> typeof v = ''object'' \<and> has_property v key
      then walk (get_property v key) keys
      else None)"

definition not_found_message :: "string \<Rightarrow> string \<Rightarrow> string" where
  "not_found_message label path = label @ '' path '' @ [CHR 0x22] @ path @ [CHR 0x22] @ '' not found''"

definition wrong_type_message :: "string \<Rightarrow> string \<Rightarrow> string \<Rightarrow> string" where
  "wrong_type_message label path kind =
     label @ '' path '' @ [CHR 0x22] @ path @ [CHR 0x22] @ '' does not resolve to a '' @ kind @ '' value''"

text \<open>
  The getters that check the type of what they found (\<open>getColor\<close>, \<open>getSpacing\<close>:
  \<open>typeof value !== 'string'\<close>; \<open>getZIndex\<close>: \<open>typeof value !== 'number'\<close>), over the
  store object they read.
\<close>

definition lookup_typed :: "string \<Rightarrow> string \<Rightarrow> jsval \<Rightarrow> string \<Rightarrow> js_error + jsval" where
  "lookup_typed label kind store path =
     (case walk store (split_on CHR ''.'' path) of
        None \<Rightarrow> Inl (Error (not_found_message label path))
      | Some v \<Rightarrow>
          if typeof v \<noteq> kind then Inl (Error (wrong_type_message label path kind))
          else Inr v)"

text \<open>
  The getters declared to return \<open>any\<close> (\<open>getShadow\<close>, \<open>getBreakpoint\<close>, and with the
  same body \<open>getTypography\<close> and \<open>getBorder\<close>): the loop, then \<open>return value\<close>.
\<close>

definition lookup_any :: "string \<Rightarrow> jsval \<Rightarrow> string \<Rightarrow> js_error + jsval" where
  "lookup_any label store path =
     (case walk store (split_on CHR ''.'' path) of
        None \<Rightarrow> Inl (Error (not_found_message label path))
      | Some v \<Rightarrow> Inr v)"

definition getColor :: "string \<Rightarrow> js_error + jsval" where
  "getColor path = lookup_typed ''Color'' ''string'' colors path"

definition getSpacing :: "string \<Rightarrow> js_error + jsval" where
  "getSpacing path = lookup_typed ''Spacing'' ''string'' spacing path"

definition getZIndex :: "string \<Rightarrow> js_error + jsval" where
  "getZIndex path = lookup_typed ''Z-index'' ''number'' zIndex path"

definition getShadow :: "string \<Rightarrow> js_error + jsval" where
  "getShadow path = lookup_any ''Shadow'' shadows path"

definition getBreakpoint :: "string \<Rightarrow> js_error + jsval" where
  "getBreakpoint path = lookup_any ''Breakpoint'' breakpoints path"

text \<open>
  The same getter with the module's store threaded through as state: it reads the store
  and hands it back as it found it, since the body has no assignment to the store.
\<close>

definition getColor_st :: "string \<Rightarrow> jsval \<Rightarrow> (js_error + jsval) \<times> jsval" where
  "getColor_st path store = (lookup_typed ''Color'' ''string'' store path, store)"

section \<open>The specification's own words, for comparison with the code\<close>

text \<open>
  Path resolution as the specification describes it: each segment must name a child of
  the current node, that is, a property the node itself carries.
\<close>

fun own_walk :: "jsval \<Rightarrow> string list \<Rightarrow> jsval option" where
  "own_walk v [] = Some v"
| "own_walk (JObj kvs) (key # keys) =
     (case map_of kvs key of None \<Rightarrow> None | Some child \<Rightarrow> own_walk child keys)"
| "own_walk v (key # keys) = None"

text \<open>\<open>Object.keys(v)\<close>: the children of a node.\<close>

fun own_keys :: "jsval \<Rightarrow> string list" where
  "own_keys (JObj kvs) = map fst kvs"
| "own_keys v = []"

text \<open>
  Channel extraction as the specification words it: a \<open>#\<close> and six hexadecimal digits
  are split into three pairs, each pair is read in base 16, and the result is
  \<open>rgb(R G B / opacity)\<close>. Anything else has no channels.
\<close>

definition spec_hex_pair :: "char \<Rightarrow> char \<Rightarrow> nat option" where
  "spec_hex_pair a b =
     (case (hex_digit_value a, hex_digit_value b) of
        (Some x, Some y) \<Rightarrow> Some (16 * x + y)
      | _ \<Rightarrow> None)"

definition spec_shadow_color :: "string \<Rightarrow> string \<Rightarrow> string option" where
  "spec_shadow_color hex opacity =
     (case hex of
        [h, r1, r2, g1, g2, b1, b2] \<Rightarrow>
          (case (spec_hex_pair r1 r2, spec_hex_pair g1 g2, spec_hex_pair b1 b2) of
             (Some r, Some g, Some b) \<Rightarrow>
               if h = CHR ''#''
               then Some (''rgb('' @ string_of_nat r @ '' '' @ string_of_nat g @ '' ''
                           @ string_of_nat b @ '' / '' @ opacity @ '')'')
               else None
           | _ \<Rightarrow> None)
      | _ \<Rightarrow> None)"

section \<open>The variant resolver: lemmas and claims\<close>

lemma split_on_nonempty: "split_on c s \<noteq> []"
  by (induction s) (auto split: list.splits)

lemma split_on_append: "split_on c (a @ c # b) = split_on c a @ split_on c b"
proof (induction a)
  case Nil
  show ?case by simp
next
  case (Cons x a)
  show ?case
  proof (cases "x = c")
    case True
    with Cons show ?thesis by simp
  next
    case False
    obtain w ws where w: "split_on c a = w # ws"
      using split_on_nonempty [of c a] by (cases "split_on c a") auto
    with False Cons show ?thesis by simp
  qed
qed

lemma class_tokens_join:
  "class_tokens (a @ CHR '' '' # b) = class_tokens a @ class_tokens b"
  unfolding class_tokens_def by (rule split_on_append)

lemma proto_get_absent: "k \<notin> set proto_keys \<Longrightarrow> proto_get r k = JUndefined"
  by (auto simp add: proto_get_def proto_keys_def)

lemma variantFragment_own:
  "variantFragment ''primary'' = JStr ''bg-blue-600 text-white hover:bg-blue-700 focus:ring-blue-500''"
  "variantFragment ''secondary'' = JStr ''bg-gray-200 text-gray-900 hover:bg-gray-300 focus:ring-gray-500''"
  "variantFragment ''outline'' = JStr ''border border-gray-300 bg-transparent hover:bg-gray-50 focus:ring-gray-500''"
  "variantFragment ''ghost'' = JStr ''bg-transparent hover:bg-gray-100 focus:ring-gray-500''"
  by (simp_all add: variantFragment_def variantClasses_def js_or_def)

lemma variantFragment_fallback:
  assumes "v \<notin> set [''primary'', ''secondary'', ''outline'', ''ghost'']" and "v \<notin> set proto_keys"
  shows "variantFragment v = variantFragment ''primary''"
  using assms
  by (simp add: variantFragment_def variantClasses_def js_or_def proto_get_absent)

lemma sizeFragment_own:
  "sizeFragment ''sm'' = JStr ''h-8 px-3 text-sm''"
  "sizeFragment ''md'' = JStr ''h-10 px-4 text-base''"
  "sizeFragment ''lg'' = JStr ''h-12 px-6 text-lg''"
  by (simp_all add: sizeFragment_def sizeClasses_def js_or_def)

lemma sizeFragment_fallback:
  assumes "s \<notin> set [''sm'', ''md'', ''lg'']" and "s \<notin> set proto_keys"
  shows "sizeFragment s = sizeFragment ''md''"
  using assms
  by (simp add: sizeFragment_def sizeClasses_def js_or_def proto_get_absent)

lemma tokens_base: "class_tokens baseClasses = [''inline-flex'', ''items-center'', ''justify-center'', ''rounded-md'',
  ''font-medium'', ''transition-colors'', ''focus:outline-none'',
  ''focus:ring-2'', ''focus:ring-offset-2'', ''disabled:opacity-50'',
  ''disabled:cursor-not-allowed'']"
  by (simp add: class_tokens_def baseClasses_def)


lemma variantFragment_cases:
  assumes "v \<notin> set proto_keys"
  shows "variantFragment v \<in> {variantFragment ''primary'', variantFragment ''secondary'',
           variantFragment ''outline'', variantFragment ''ghost''}"
  using variantFragment_fallback [OF _ assms] by (cases "v \<in> set [''primary'', ''secondary'', ''outline'', ''ghost'']") auto

lemma sizeFragment_cases:
  assumes "s \<notin> set proto_keys"
  shows "sizeFragment s \<in> {sizeFragment ''sm'', sizeFragment ''md'', sizeFragment ''lg''}"
  using sizeFragment_fallback [OF _ assms] by (cases "s \<in> set [''sm'', ''md'', ''lg'']") auto

lemma tokens_variant:
  "class_tokens (to_string (variantFragment ''primary'')) = [''bg-blue-600'', ''text-white'', ''hover:bg-blue-700'', ''focus:ring-blue-500'']"
  "class_tokens (to_string (variantFragment ''secondary'')) = [''bg-gray-200'', ''text-gray-900'', ''hover:bg-gray-300'', ''focus:ring-gray-500'']"
  "class_tokens (to_string (variantFragment ''outline'')) = [''border'', ''border-gray-300'', ''bg-transparent'', ''hover:bg-gray-50'', ''focus:ring-gray-500'']"
  "class_tokens (to_string (variantFragment ''ghost'')) = [''bg-transparent'', ''hover:bg-gray-100'', ''focus:ring-gray-500'']"
  by (simp_all add: variantFragment_own class_tokens_def)

lemma tokens_size:
  "class_tokens (to_string (sizeFragment ''sm'')) = [''h-8'', ''px-3'', ''text-sm'']"
  "class_tokens (to_string (sizeFragment ''md'')) = [''h-10'', ''px-4'', ''text-base'']"
  "class_tokens (to_string (sizeFragment ''lg'')) = [''h-12'', ''px-6'', ''text-lg'']"
  by (simp_all add: sizeFragment_own class_tokens_def)

lemma tokens_authored_distinct:
  assumes "vf \<in> {variantFragment ''primary'', variantFragment ''secondary'',
           variantFragment ''outline'', variantFragment ''ghost''}"
    and "sf \<in> {sizeFragment ''sm'', sizeFragment ''md'', sizeFragment ''lg''}"
  shows "distinct (class_tokens baseClasses @ class_tokens (to_string vf) @ class_tokens (to_string sf))"
  using assms
  by (elim insertE emptyE; simp only: tokens_base tokens_variant tokens_size; simp)

lemma string_of_nat_nonempty: "string_of_nat n \<noteq> []"
  by (subst string_of_nat.simps) simp

lemma to_string_truthy: "truthy x \<Longrightarrow> to_string x \<noteq> []"
  by (cases x) (simp_all add: string_of_int_def string_of_nat_nonempty)

lemma variantFragment_truthy: "truthy (variantFragment v)"
  by (simp add: variantFragment_def js_or_def variantClasses_def)

lemma sizeFragment_truthy: "truthy (sizeFragment s)"
  by (simp add: sizeFragment_def js_or_def sizeClasses_def)

lemma getButtonVariants_tokens:
  "class_tokens (getButtonVariants sel) =
     class_tokens baseClasses
     @ class_tokens (to_string (variantFragment (case variant sel of None \<Rightarrow> ''primary'' | Some x \<Rightarrow> x)))
     @ class_tokens (to_string (sizeFragment (case size_sel sel of None \<Rightarrow> ''md'' | Some x \<Rightarrow> x)))"
  by (simp add: getButtonVariants_def Let_def class_tokens_join)

lemma default_names_not_inherited: "''primary'' \<notin> set proto_keys" "''md'' \<notin> set proto_keys"
  by (simp_all add: proto_keys_def)

lemma resolver_scenario_3:
  "getButtonVariants \<lparr>variant = Some ''secondary'', size_sel = None\<rparr> =
     baseClasses @ '' bg-gray-200 text-gray-900 hover:bg-gray-300 focus:ring-gray-500'' @ '' h-10 px-4 text-base''"
  "getButtonVariants \<lparr>variant = Some ''nope'', size_sel = Some ''lg''\<rparr> =
     baseClasses @ '' bg-blue-600 text-white hover:bg-blue-700 focus:ring-blue-500'' @ '' h-12 px-6 text-lg''"
  by (simp_all add: getButtonVariants_def variantFragment_own sizeFragment_own
        variantFragment_fallback sizeFragment_fallback proto_keys_def)

lemma resolver_fallback:
  assumes "variant sel \<notin> Some ` set ([''primary'', ''secondary'', ''outline'', ''ghost''] @ proto_keys)"
    and "size_sel sel \<notin> Some ` set ([''sm'', ''md'', ''lg''] @ proto_keys)"
  shows "getButtonVariants sel = getButtonVariants \<lparr>variant = Some ''primary'', size_sel = Some ''md''\<rparr>"
proof -
  have v: "variantFragment (case variant sel of None \<Rightarrow> ''primary'' | Some x \<Rightarrow> x) = variantFragment ''primary''"
    using assms(1) by (cases "variant sel") (auto intro: variantFragment_fallback)
  have s: "sizeFragment (case size_sel sel of None \<Rightarrow> ''md'' | Some x \<Rightarrow> x) = sizeFragment ''md''"
    using assms(2) by (cases "size_sel sel") (auto intro: sizeFragment_fallback)
  show ?thesis by (simp add: getButtonVariants_def v s)
qed

lemma destructive_is_primary:
  "getButtonVariants \<lparr>variant = Some ''destructive'', size_sel = s\<rparr> =
   getButtonVariants \<lparr>variant = Some ''primary'', size_sel = s\<rparr>"
  by (simp add: getButtonVariants_def variantFragment_fallback proto_keys_def)

text \<open>
  C1. An axis value that is not one of the axis's keys should resolve to the default
  fragment. The table lookup \<open>variantClasses[variant]\<close> also finds what the table
  inherits from \<open>Object.prototype\<close>, and such a value is truthy, so \<open>||\<close> does not
  fall back: \<open>{variant: 'constructor'}\<close> yields the printed \<open>Object\<close> function in the
  place of the primary fragment. (\<open>resolver_scenario_3\<close> and \<open>resolver_fallback\<close> above
  cover the two worked examples and every name that is not inherited.)
\<close>

theorem C1_inherited_variant_is_not_defaulted:
  "getButtonVariants \<lparr>variant = Some ''constructor'', size_sel = None\<rparr> =
     baseClasses @ '' function Object() { [native code] } h-10 px-4 text-base''
   \<and> getButtonVariants \<lparr>variant = Some ''constructor'', size_sel = None\<rparr> \<noteq>
     baseClasses @ '' '' @ to_string (get_property variantClasses ''primary'')
       @ '' '' @ to_string (get_property sizeClasses ''md'')"
  by (simp add: getButtonVariants_def variantFragment_def variantClasses_def js_or_def
        proto_get_def sizeFragment_own sizeClasses_def)

text \<open>
  C4. For every selection, the empty one included, the resolver returns a string: it
  is never empty, it is the base fragment followed by a non-empty variant part and a
  non-empty size part. The closure has no \<open>throw\<close>, reads properties of object literals
  only and interpolates strings, built-in functions or plain objects, so there is no
  failing branch to model; the empty selection gives base, primary, md.
\<close>

theorem C4_resolver_always_returns_a_descriptor:
  "getButtonVariants sel \<noteq> []
   \<and> (\<exists>vf sf. vf \<noteq> [] \<and> sf \<noteq> [] \<and> getButtonVariants sel = baseClasses @ '' '' @ vf @ '' '' @ sf)
   \<and> getButtonVariants \<lparr>variant = None, size_sel = None\<rparr> =
       baseClasses @ '' bg-blue-600 text-white hover:bg-blue-700 focus:ring-blue-500''
         @ '' h-10 px-4 text-base''"
proof (intro conjI)
  show "getButtonVariants sel \<noteq> []"
    by (simp add: getButtonVariants_def Let_def baseClasses_def)
  show "\<exists>vf sf. vf \<noteq> [] \<and> sf \<noteq> [] \<and> getButtonVariants sel = baseClasses @ '' '' @ vf @ '' '' @ sf"
    using to_string_truthy [OF variantFragment_truthy] to_string_truthy [OF sizeFragment_truthy]
    by (auto simp add: getButtonVariants_def Let_def)
  show "getButtonVariants \<lparr>variant = None, size_sel = None\<rparr> =
       baseClasses @ '' bg-blue-600 text-white hover:bg-blue-700 focus:ring-blue-500''
         @ '' h-10 px-4 text-base''"
    by (simp add: getButtonVariants_def variantFragment_own sizeFragment_own)
qed

text \<open>
  C5. The class tokens of the result are the base tokens, then the tokens of the variant
  fragment, then the tokens of the size fragment, in that order and with nothing moved;
  for \<open>{variant: 'outline', size: 'lg'}\<close> the token list is written out.
\<close>

theorem C5_fragments_in_declared_order:
  "class_tokens (getButtonVariants sel) =
     class_tokens baseClasses
     @ class_tokens (to_string (variantFragment (case variant sel of None \<Rightarrow> ''primary'' | Some x \<Rightarrow> x)))
     @ class_tokens (to_string (sizeFragment (case size_sel sel of None \<Rightarrow> ''md'' | Some x \<Rightarrow> x)))
   \<and> class_tokens (getButtonVariants \<lparr>variant = Some ''outline'', size_sel = Some ''lg''\<rparr>) =
     [''inline-flex'', ''items-center'', ''justify-center'', ''rounded-md'', ''font-medium'',
      ''transition-colors'', ''focus:outline-none'', ''focus:ring-2'', ''focus:ring-offset-2'',
      ''disabled:opacity-50'', ''disabled:cursor-not-allowed'',
      ''border'', ''border-gray-300'', ''bg-transparent'', ''hover:bg-gray-50'', ''focus:ring-gray-500'',
      ''h-12'', ''px-6'', ''text-lg'']"
  by (simp add: getButtonVariants_tokens tokens_base tokens_variant tokens_size)

text \<open>
  C6 as stated fails: nothing removes repeated tokens. The Button component passes the
  resolved string and the caller's \<open>className\<close> to \<open>cn\<close>; with \<open>className = 'inline-flex'\<close>,
  a token the base fragment already has, the result is the longer string and holds the
  token twice.
\<close>

theorem C6_cn_keeps_duplicate_tokens:
  "button_className \<lparr>variant = None, size_sel = None\<rparr> (CStr ''inline-flex'') =
     getButtonVariants \<lparr>variant = None, size_sel = None\<rparr> @ '' inline-flex''
   \<and> \<not> distinct (class_tokens (button_className \<lparr>variant = None, size_sel = None\<rparr> (CStr ''inline-flex'')))"
proof -
  have nonempty: "getButtonVariants \<lparr>variant = Some ''primary'', size_sel = Some ''md''\<rparr> \<noteq> []"
    by (simp add: getButtonVariants_def Let_def baseClasses_def)
  have same: "getButtonVariants \<lparr>variant = Some ''primary'', size_sel = Some ''md''\<rparr> =
      getButtonVariants \<lparr>variant = None, size_sel = None\<rparr>"
    by (simp add: getButtonVariants_def)
  have eq: "button_className \<lparr>variant = None, size_sel = None\<rparr> (CStr ''inline-flex'') =
     getButtonVariants \<lparr>variant = None, size_sel = None\<rparr> @ '' inline-flex''"
    using nonempty by (simp add: button_className_def cn_def same)
  have "class_tokens (getButtonVariants \<lparr>variant = None, size_sel = None\<rparr> @ CHR '' '' # ''inline-flex'') =
    class_tokens (getButtonVariants \<lparr>variant = None, size_sel = None\<rparr>) @ class_tokens ''inline-flex''"
    by (rule class_tokens_join)
  also have "\<dots> = class_tokens baseClasses
      @ class_tokens (to_string (variantFragment ''primary''))
      @ class_tokens (to_string (sizeFragment ''md'')) @ [''inline-flex'']"
    by (simp add: getButtonVariants_tokens) (simp add: class_tokens_def)
  finally have "\<not> distinct (class_tokens (getButtonVariants \<lparr>variant = None, size_sel = None\<rparr> @ '' inline-flex''))"
    by (simp add: tokens_base)
  with eq show ?thesis by simp
qed

text \<open>
  C6, amended. The same selection gives the same string. When each axis value is
  absent, a key of its table or a name the table does not have at all, the resolver's
  tokens are pairwise distinct, because the authored fragments share none. \<open>cn\<close> joins its
  non-empty string arguments with single spaces and keeps every token.
\<close>

theorem C6_resolver_repeatable_without_dedup:
  assumes "variant sel \<notin> Some ` set proto_keys" and "size_sel sel \<notin> Some ` set proto_keys"
  shows "(sel' = sel \<longrightarrow> getButtonVariants sel' = getButtonVariants sel)
     \<and> distinct (class_tokens (getButtonVariants sel))
     \<and> (a \<noteq> [] \<and> b \<noteq> [] \<longrightarrow> cn [CStr a, CStr b] = a @ '' '' @ b)
     \<and> cn [CStr a, CUndefined] = a"
proof -
  have v: "(case variant sel of None \<Rightarrow> ''primary'' | Some x \<Rightarrow> x) \<notin> set proto_keys"
    using assms(1) by (cases "variant sel") (auto simp add: default_names_not_inherited)
  have s: "(case size_sel sel of None \<Rightarrow> ''md'' | Some x \<Rightarrow> x) \<notin> set proto_keys"
    using assms(2) by (cases "size_sel sel") (auto simp add: default_names_not_inherited)
  have "distinct (class_tokens (getButtonVariants sel))"
    unfolding getButtonVariants_tokens
    by (rule tokens_authored_distinct [OF variantFragment_cases [OF v] sizeFragment_cases [OF s]])
  moreover have "cn [CStr a, CUndefined] = a"
    by (cases a) (simp_all add: cn_def)
  ultimately show ?thesis by (simp add: cn_def)
qed

theorem C6_resolver_repeatable_without_dedup_witness:
  "variant \<lparr>variant = Some ''secondary'', size_sel = None\<rparr> \<notin> Some ` set proto_keys
   \<and> size_sel \<lparr>variant = Some ''secondary'', size_sel = None\<rparr> \<notin> Some ` set proto_keys
   \<and> distinct (class_tokens (getButtonVariants \<lparr>variant = Some ''secondary'', size_sel = None\<rparr>))
   \<and> cn [CStr ''px-4'', CStr ''px-4''] = ''px-4 px-4''"
proof -
  have h1: "variant \<lparr>variant = Some ''secondary'', size_sel = None\<rparr> \<notin> Some ` set proto_keys"
    by (simp add: proto_keys_def image_iff)
  have h2: "size_sel \<lparr>variant = Some ''secondary'', size_sel = None\<rparr> \<notin> Some ` set proto_keys"
    by (simp add: image_iff)
  show ?thesis
    using C6_resolver_repeatable_without_dedup [OF h1 h2, of "\<lparr>variant = Some ''secondary'', size_sel = None\<rparr>" "''px-4''" "''px-4''"] h1 h2
    by simp
qed

text \<open>
  C10. A variant string outside the four keys should give the output of \<open>'primary'\<close>.
  \<open>'destructive'\<close> does (\<open>destructive_is_primary\<close> above), and so does every name that is
  not inherited (\<open>resolver_fallback\<close>); \<open>'toString'\<close> does not: the lookup finds
  \<open>Object.prototype.toString\<close> and the result carries the printed function.
\<close>

theorem C10_inherited_name_differs_from_primary:
  "getButtonVariants \<lparr>variant = Some ''toString'', size_sel = Some ''sm''\<rparr> =
     baseClasses @ '' function toString() { [native code] } h-8 px-3 text-sm''
   \<and> getButtonVariants \<lparr>variant = Some ''toString'', size_sel = Some ''sm''\<rparr> \<noteq>
     getButtonVariants \<lparr>variant = Some ''primary'', size_sel = Some ''sm''\<rparr>"
  by (simp add: getButtonVariants_def variantFragment_def variantClasses_def js_or_def
        proto_get_def proto_keys_def sizeFragment_own)

section \<open>Token lookup\<close>

lemma own_walk_is_walk: "own_walk v ks = Some r \<Longrightarrow> walk v ks = Some r"
proof (induction ks arbitrary: v)
  case Nil
  then show ?case by simp
next
  case (Cons k ks)
  then obtain kvs where v: "v = JObj kvs" by (cases v) simp_all
  with Cons.prems obtain child where c: "map_of kvs k = Some child" and r: "own_walk child ks = Some r"
    by (auto split: option.splits)
  from c have "k \<in> set (map fst kvs)"
    by (metis map_of_eq_None_iff option.distinct(1) set_map)
  with v c Cons.IH [OF r] show ?case by simp
qed

lemma walk_missing_segment:
  assumes "own_walk v ks = None" and "set ks \<inter> set proto_keys = {}"
  shows "walk v ks = None"
  using assms
proof (induction ks arbitrary: v)
  case Nil
  then show ?case by simp
next
  case (Cons k ks)
  show ?case
  proof (cases v)
    case (JObj kvs)
    show ?thesis
    proof (cases "map_of kvs k")
      case None
      then have "k \<notin> set (map fst kvs)" by (simp add: map_of_eq_None_iff)
      moreover from Cons.prems(2) have "k \<notin> set proto_keys" by auto
      ultimately show ?thesis using JObj by simp
    next
      case (Some child)
      with Cons.prems JObj have "own_walk child ks = None" by simp
      moreover from Cons.prems(2) have "set ks \<inter> set proto_keys = {}" by auto
      ultimately have "walk child ks = None" by (rule Cons.IH)
      with Some JObj show ?thesis by simp
    qed
  next
    case JProto
    from Cons.prems(2) have "k \<notin> set proto_keys" by auto
    with JProto show ?thesis by simp
  qed simp_all
qed

lemma missing_segment_not_found:
  assumes "own_walk store (split_on CHR ''.'' path) = None"
    and "set (split_on CHR ''.'' path) \<inter> set proto_keys = {}"
  shows "lookup_typed label kind store path = Inl (Error (not_found_message label path))"
    and "lookup_any label store path = Inl (Error (not_found_message label path))"
  using walk_missing_segment [OF assms] by (simp_all add: lookup_typed_def lookup_any_def)

lemma lookup_typed_subtree:
  assumes "own_walk store (split_on CHR ''.'' path) = Some (JObj kvs)" and "kind \<noteq> ''object''"
  shows "lookup_typed label kind store path = Inl (Error (wrong_type_message label path kind))"
  using own_walk_is_walk [OF assms(1)] assms(2) by (simp add: lookup_typed_def)

lemma lookup_any_subtree:
  assumes "own_walk store (split_on CHR ''.'' path) = Some v"
  shows "lookup_any label store path = Inr v"
  using own_walk_is_walk [OF assms] by (simp add: lookup_any_def)

lemma split_semantic_error_500:
  "split_on CHR ''.'' ''semantic.error.500'' = [''semantic'', ''error'', ''500'']"
  by simp

lemma walk_semantic_error_500:
  "walk colors [''semantic'', ''error'', ''500''] = Some (JStr ''#ef4444'')"
  by (simp add: colors_def colors_semantic_def)

lemma lookup_semantic_error_500:
  "lookup_typed ''Color'' ''string'' colors ''semantic.error.500'' = Inr (JStr ''#ef4444'')"
  unfolding lookup_typed_def split_semantic_error_500 walk_semantic_error_500 by simp

lemma color_reads_are_strings:
  "foldl get_property colors [''primary'', ''950''] = JStr ''#222222''"
  "foldl get_property colors [''secondary'', ''500''] = JStr ''#64748b''"
  "foldl get_property colors [''semantic'', ''success'', ''500''] = JStr ''#10b981''"
  "foldl get_property colors [''semantic'', ''error'', ''500''] = JStr ''#ef4444''"
  "foldl get_property colors [''semantic'', ''warning'', ''500''] = JStr ''#f59e0b''"
  "foldl get_property colors [''semantic'', ''info'', ''500''] = JStr ''#06b6d4''"
  by (simp_all add: colors_def colors_primary_def colors_secondary_def colors_semantic_def)

lemma color_at_values:
  "color_at [''primary'', ''950''] = ''#222222''"
  "color_at [''secondary'', ''500''] = ''#64748b''"
  "color_at [''semantic'', ''success'', ''500''] = ''#10b981''"
  "color_at [''semantic'', ''error'', ''500''] = ''#ef4444''"
  "color_at [''semantic'', ''warning'', ''500''] = ''#f59e0b''"
  "color_at [''semantic'', ''info'', ''500''] = ''#06b6d4''"
  unfolding color_at_def color_reads_are_strings by simp_all

text \<open>
  C2. A path segment that names no child of the current node but is a property
  inherited from \<open>Object.prototype\<close> passes the \<open>in\<close> test: \<open>getShadow('constructor')\<close>
  returns the built-in \<open>Object\<close> function instead of failing, and
  \<open>getColor('constructor')\<close> fails only at the type check, with the other message.
\<close>

theorem C2_inherited_segment_is_found:
  "''constructor'' \<notin> set (own_keys shadows)
   \<and> getShadow ''constructor'' = Inr (JNative ''Object'')
   \<and> ''constructor'' \<notin> set (own_keys colors)
   \<and> getColor ''constructor'' = Inl (Error (wrong_type_message ''Color'' ''constructor'' ''string''))
   \<and> getColor ''constructor'' \<noteq> Inl (Error (not_found_message ''Color'' ''constructor''))"
  by (simp add: getShadow_def lookup_any_def shadows_def getColor_def lookup_typed_def colors_def
        proto_get_def proto_keys_def wrong_type_message_def not_found_message_def)

text \<open>
  C3 as stated fails on the getters declared to return \<open>any\<close>: \<open>getBreakpoint('screens')\<close>
  returns the subtree.
\<close>

theorem C3_getBreakpoint_returns_subtree:
  "getBreakpoint ''screens'' =
     Inr (JObj [(''sm'', JStr ''640px''), (''md'', JStr ''768px''), (''lg'', JStr ''1024px''),
                (''xl'', JStr ''1280px''), (''2xl'', JStr ''1536px'')])"
  by (simp add: getBreakpoint_def lookup_any_def breakpoints_def breakpoints_screens_def)

text \<open>
  C3, amended. A path that resolves to an interior node makes \<open>getColor\<close>, \<open>getSpacing\<close>
  and \<open>getZIndex\<close> fail with the does-not-resolve error naming the path; \<open>getShadow\<close> and
  \<open>getBreakpoint\<close> return the node.
\<close>

theorem C3_typed_getters_reject_subtrees:
  assumes "own_walk colors (split_on CHR ''.'' p1) = Some (JObj k1)"
    and "own_walk spacing (split_on CHR ''.'' p2) = Some (JObj k2)"
    and "own_walk zIndex (split_on CHR ''.'' p3) = Some (JObj k3)"
    and "own_walk shadows (split_on CHR ''.'' p4) = Some (JObj k4)"
    and "own_walk breakpoints (split_on CHR ''.'' p5) = Some (JObj k5)"
  shows "getColor p1 = Inl (Error (wrong_type_message ''Color'' p1 ''string''))
     \<and> getSpacing p2 = Inl (Error (wrong_type_message ''Spacing'' p2 ''string''))
     \<and> getZIndex p3 = Inl (Error (wrong_type_message ''Z-index'' p3 ''number''))
     \<and> getShadow p4 = Inr (JObj k4)
     \<and> getBreakpoint p5 = Inr (JObj k5)"
  unfolding getColor_def getSpacing_def getZIndex_def getShadow_def getBreakpoint_def
  using lookup_typed_subtree [OF assms(1)] lookup_typed_subtree [OF assms(2)]
    lookup_typed_subtree [OF assms(3)] lookup_any_subtree [OF assms(4)]
    lookup_any_subtree [OF assms(5)]
  by simp

theorem C3_typed_getters_reject_subtrees_witness:
  "own_walk colors (split_on CHR ''.'' ''secondary'') = Some colors_secondary
   \<and> own_walk spacing (split_on CHR ''.'' ''container.responsive.compact'')
       = Some (JObj [(''base'', JStr ''1rem''), (''sm'', JStr ''1.5rem'')])
   \<and> own_walk zIndex (split_on CHR ''.'' ''states.disabled'') = Some (JObj [(''element'', JNum 0)])
   \<and> own_walk shadows (split_on CHR ''.'' ''colors.email'')
       = Some (JObj [(''button'', JStr ''rgba(79, 70, 229, 0.3)''), (''card'', JStr ''rgba(0, 0, 0, 0.1)'')])
   \<and> own_walk breakpoints (split_on CHR ''.'' ''grid.patterns.admin'')
       = Some (JObj [(''base'', JNum 2), (''md'', JNum 4)])
   \<and> getColor ''secondary'' = Inl (Error (wrong_type_message ''Color'' ''secondary'' ''string''))
   \<and> getSpacing ''container.responsive.compact''
       = Inl (Error (wrong_type_message ''Spacing'' ''container.responsive.compact'' ''string''))
   \<and> getZIndex ''states.disabled'' = Inl (Error (wrong_type_message ''Z-index'' ''states.disabled'' ''number''))
   \<and> getShadow ''colors.email''
       = Inr (JObj [(''button'', JStr ''rgba(79, 70, 229, 0.3)''), (''card'', JStr ''rgba(0, 0, 0, 0.1)'')])
   \<and> getBreakpoint ''grid.patterns.admin'' = Inr (JObj [(''base'', JNum 2), (''md'', JNum 4)])"
proof -
  have h1: "own_walk colors (split_on CHR ''.'' ''secondary'') =
      Some (JObj [(''50'', JStr ''#f8fafc''), (''100'', JStr ''#f1f5f9''), (''200'', JStr ''#e2e8f0''),
                  (''400'', JStr ''#94a3b8''), (''500'', JStr ''#64748b'')])"
    by (simp add: colors_def colors_secondary_def)
  have h2: "own_walk spacing (split_on CHR ''.'' ''container.responsive.compact'')
       = Some (JObj [(''base'', JStr ''1rem''), (''sm'', JStr ''1.5rem'')])"
    by (simp add: spacing_def spacing_container_def)
  have h3: "own_walk zIndex (split_on CHR ''.'' ''states.disabled'') = Some (JObj [(''element'', JNum 0)])"
    by (simp add: zIndex_def zIndex_states_def)
  have h4: "own_walk shadows (split_on CHR ''.'' ''colors.email'')
       = Some (JObj [(''button'', JStr ''rgba(79, 70, 229, 0.3)''), (''card'', JStr ''rgba(0, 0, 0, 0.1)'')])"
    by (simp add: shadows_def shadows_colors_def)
  have h5: "own_walk breakpoints (split_on CHR ''.'' ''grid.patterns.admin'')
       = Some (JObj [(''base'', JNum 2), (''md'', JNum 4)])"
    by (simp add: breakpoints_def breakpoints_grid_def)
  have s: "colors_secondary = JObj [(''50'', JStr ''#f8fafc''), (''100'', JStr ''#f1f5f9''), (''200'', JStr ''#e2e8f0''),
                  (''400'', JStr ''#94a3b8''), (''500'', JStr ''#64748b'')]"
    by (simp add: colors_secondary_def)
  show ?thesis
    using C3_typed_getters_reject_subtrees [OF h1 h2 h3 h4 h5] h1 h2 h3 h4 h5 unfolding s
    by simp
qed

text \<open>
  C7. With the store threaded through as state, a lookup that succeeds leaves the store
  as it was, and the same lookup run again on the store it left returns the same value.
  \<open>getColor\<close> is this lookup on the module's \<open>colors\<close>.
\<close>

theorem C7_lookup_is_repeatable:
  assumes "fst (getColor_st path store) = Inr v"
  shows "snd (getColor_st path store) = store
     \<and> getColor_st path (snd (getColor_st path store)) = (Inr v, store)
     \<and> (store = colors \<longrightarrow> getColor path = Inr v)"
  using assms by (auto simp add: getColor_st_def getColor_def)

theorem C7_lookup_is_repeatable_witness:
  "fst (getColor_st ''semantic.error.500'' colors) = Inr (JStr ''#ef4444'')
   \<and> snd (getColor_st ''semantic.error.500'' colors) = colors
   \<and> getColor_st ''semantic.error.500'' (snd (getColor_st ''semantic.error.500'' colors))
       = (Inr (JStr ''#ef4444''), colors)
   \<and> getColor ''semantic.error.500'' = Inr (JStr ''#ef4444'')"
proof -
  have h: "fst (getColor_st ''semantic.error.500'' colors) = Inr (JStr ''#ef4444'')"
    by (simp add: getColor_st_def lookup_semantic_error_500)
  show ?thesis using C7_lookup_is_repeatable [OF h] h by blast
qed

text \<open>
  C8 as stated fails: the colour getter walks from the \<open>colors\<close> object, so the category
  name is not a segment, and \<open>getColor('colors.semantic.error.500')\<close> throws.
\<close>

theorem C8_prefixed_path_is_not_found:
  "getColor ''colors.semantic.error.500'' =
     Inl (Error (not_found_message ''Color'' ''colors.semantic.error.500''))
   \<and> getColor ''colors.semantic.error.500'' \<noteq> Inr (JStr ''#ef4444'')"
  by (simp add: getColor_def lookup_typed_def colors_def proto_keys_def)

text \<open>C8, amended. \<open>getColor('semantic.error.500')\<close> returns \<open>'#ef4444'\<close>.\<close>

theorem C8_relative_path_returns_hex:
  "getColor ''semantic.error.500'' = Inr (JStr ''#ef4444'')"
  by (simp add: getColor_def lookup_semantic_error_500)

section \<open>Derived shadow colours\<close>

lemma hex_digit_is_plain:
  assumes "hex_digit_value c = Some d"
  shows "\<not> white_space c" "\<not> line_terminator c" "c \<noteq> CHR ''-''" "c \<noteq> CHR ''+''"
    "c \<noteq> CHR ''x''" "c \<noteq> CHR ''X''" "c \<noteq> CHR ''#''"
  using assms
  by (auto simp add: hex_digit_value_def white_space_def line_terminator_def split: if_splits)

lemma string_of_int_of_nat: "string_of_int (int n) = string_of_nat n"
  by (simp add: string_of_int_def)

lemma parseInt16_pair:
  assumes "hex_digit_value a = Some x" and "hex_digit_value b = Some y"
  shows "parseInt16 [a, b] = Some (int (16 * x + y))"
  using assms hex_digit_is_plain [OF assms(1)] hex_digit_is_plain [OF assms(2)]
  by (simp add: parseInt16_def Let_def)

lemma rgb_channels_six_digits:
  assumes "spec_hex_pair r1 r2 = Some r" and "spec_hex_pair g1 g2 = Some g"
    and "spec_hex_pair b1 b2 = Some b"
  shows "rgb_channels [CHR ''#'', r1, r2, g1, g2, b1, b2] =
     string_of_nat r @ '' '' @ string_of_nat g @ '' '' @ string_of_nat b"
proof -
  from assms(1) obtain x1 x2 where r: "hex_digit_value r1 = Some x1" "hex_digit_value r2 = Some x2"
      "r = 16 * x1 + x2"
    by (auto simp add: spec_hex_pair_def split: option.splits)
  from assms(2) obtain y1 y2 where g: "hex_digit_value g1 = Some y1" "hex_digit_value g2 = Some y2"
      "g = 16 * y1 + y2"
    by (auto simp add: spec_hex_pair_def split: option.splits)
  from assms(3) obtain z1 z2 where b: "hex_digit_value b1 = Some z1" "hex_digit_value b2 = Some z2"
      "b = 16 * z1 + z2"
    by (auto simp add: spec_hex_pair_def split: option.splits)
  have pairs: "match_pairs [r1, r2, g1, g2, b1, b2] = [[r1, r2], [g1, g2], [b1, b2]]"
    using hex_digit_is_plain(2) [OF r(1)] hex_digit_is_plain(2) [OF r(2)]
      hex_digit_is_plain(2) [OF g(1)] hex_digit_is_plain(2) [OF g(2)]
      hex_digit_is_plain(2) [OF b(1)] hex_digit_is_plain(2) [OF b(2)]
    by simp
  have nums: "number_to_string (parseInt16 [r1, r2]) = string_of_nat r"
    "number_to_string (parseInt16 [g1, g2]) = string_of_nat g"
    "number_to_string (parseInt16 [b1, b2]) = string_of_nat b"
    by (simp_all only: parseInt16_pair [OF r(1,2)] parseInt16_pair [OF g(1,2)]
          parseInt16_pair [OF b(1,2)] number_to_string_def option.simps string_of_int_of_nat
          r(3) g(3) b(3))
  have rep: "js_replace_empty CHR ''#'' [CHR ''#'', r1, r2, g1, g2, b1, b2] = [r1, r2, g1, g2, b1, b2]"
    by simp
  show ?thesis
    unfolding rgb_channels_def rep js_match_pairs_def pairs by (simp add: nums)
qed

lemma rgb_template_refines_spec:
  assumes "spec_shadow_color hex opacity = Some s"
  shows "''rgb('' @ rgb_channels hex @ '' / '' @ opacity @ '')'' = s"
proof -
  from assms obtain h r1 r2 g1 g2 b1 b2 where hex: "hex = [h, r1, r2, g1, g2, b1, b2]"
    by (auto simp add: spec_shadow_color_def split: list.splits)
  from assms hex obtain r g b where p: "spec_hex_pair r1 r2 = Some r" "spec_hex_pair g1 g2 = Some g"
      "spec_hex_pair b1 b2 = Some b" and h: "h = CHR ''#''"
      and s: "s = ''rgb('' @ string_of_nat r @ '' '' @ string_of_nat g @ '' ''
                           @ string_of_nat b @ '' / '' @ opacity @ '')''"
    by (auto simp add: spec_shadow_color_def split: option.splits if_splits)
  show ?thesis unfolding hex h s rgb_channels_six_digits [OF p] by simp
qed

lemma shadow_color_entries:
  "get_property shadows_colors ''primary'' = JStr (''rgb('' @ rgb_channels (color_at [''primary'', ''950'']) @ '' / 0.1)'')"
  "get_property shadows_colors ''secondary'' = JStr (''rgb('' @ rgb_channels (color_at [''secondary'', ''500'']) @ '' / 0.1)'')"
  "get_property shadows_colors ''success'' = JStr (''rgb('' @ rgb_channels (color_at [''semantic'', ''success'', ''500'']) @ '' / 0.2)'')"
  "get_property shadows_colors ''error'' = JStr (''rgb('' @ rgb_channels (color_at [''semantic'', ''error'', ''500'']) @ '' / 0.2)'')"
  "get_property shadows_colors ''warning'' = JStr (''rgb('' @ rgb_channels (color_at [''semantic'', ''warning'', ''500'']) @ '' / 0.2)'')"
  "get_property shadows_colors ''info'' = JStr (''rgb('' @ rgb_channels (color_at [''semantic'', ''info'', ''500'']) @ '' / 0.2)'')"
  by (simp_all add: shadows_colors_def)

lemma spec_shadow_color_values:
  "spec_shadow_color ''#222222'' ''0.1'' = Some ''rgb(34 34 34 / 0.1)''"
  "spec_shadow_color ''#64748b'' ''0.1'' = Some ''rgb(100 116 139 / 0.1)''"
  "spec_shadow_color ''#10b981'' ''0.2'' = Some ''rgb(16 185 129 / 0.2)''"
  "spec_shadow_color ''#ef4444'' ''0.2'' = Some ''rgb(239 68 68 / 0.2)''"
  "spec_shadow_color ''#f59e0b'' ''0.2'' = Some ''rgb(245 158 11 / 0.2)''"
  "spec_shadow_color ''#06b6d4'' ''0.2'' = Some ''rgb(6 182 212 / 0.2)''"
  by (simp_all add: spec_shadow_color_def spec_hex_pair_def hex_digit_value_def
        string_of_nat.simps digit_char_def)

text \<open>
  C9. Each of the six derived entries of \<open>shadows.colors\<close> is the string the
  specification's channel extraction gives for its source colour token and its opacity;
  the error entry, from \<open>colors.semantic.error[500] = '#ef4444'\<close>, is
  \<open>rgb(239 68 68 / 0.2)\<close>, and the shadow getter returns it.
\<close>

theorem C9_shadow_colors_are_channel_extractions:
  "map_option JStr (spec_shadow_color (color_at [''primary'', ''950'']) ''0.1'')
       = Some (get_property shadows_colors ''primary'')
   \<and> map_option JStr (spec_shadow_color (color_at [''secondary'', ''500'']) ''0.1'')
       = Some (get_property shadows_colors ''secondary'')
   \<and> map_option JStr (spec_shadow_color (color_at [''semantic'', ''success'', ''500'']) ''0.2'')
       = Some (get_property shadows_colors ''success'')
   \<and> map_option JStr (spec_shadow_color (color_at [''semantic'', ''error'', ''500'']) ''0.2'')
       = Some (get_property shadows_colors ''error'')
   \<and> map_option JStr (spec_shadow_color (color_at [''semantic'', ''warning'', ''500'']) ''0.2'')
       = Some (get_property shadows_colors ''warning'')
   \<and> map_option JStr (spec_shadow_color (color_at [''semantic'', ''info'', ''500'']) ''0.2'')
       = Some (get_property shadows_colors ''info'')
   \<and> color_at [''semantic'', ''error'', ''500''] = ''#ef4444''
   \<and> get_property shadows_colors ''error'' = JStr ''rgb(239 68 68 / 0.2)''
   \<and> getShadow ''colors.error'' = Inr (JStr ''rgb(239 68 68 / 0.2)'')"
proof -
  have e1: "get_property shadows_colors ''primary'' = JStr ''rgb(34 34 34 / 0.1)''"
    using rgb_template_refines_spec [OF spec_shadow_color_values(1)]
    by (simp add: shadow_color_entries color_at_values)
  have e2: "get_property shadows_colors ''secondary'' = JStr ''rgb(100 116 139 / 0.1)''"
    using rgb_template_refines_spec [OF spec_shadow_color_values(2)]
    by (simp add: shadow_color_entries color_at_values)
  have e3: "get_property shadows_colors ''success'' = JStr ''rgb(16 185 129 / 0.2)''"
    using rgb_template_refines_spec [OF spec_shadow_color_values(3)]
    by (simp add: shadow_color_entries color_at_values)
  have e4: "get_property shadows_colors ''error'' = JStr ''rgb(239 68 68 / 0.2)''"
    using rgb_template_refines_spec [OF spec_shadow_color_values(4)]
    by (simp add: shadow_color_entries color_at_values)
  have e5: "get_property shadows_colors ''warning'' = JStr ''rgb(245 158 11 / 0.2)''"
    using rgb_template_refines_spec [OF spec_shadow_color_values(5)]
    by (simp add: shadow_color_entries color_at_values)
  have e6: "get_property shadows_colors ''info'' = JStr ''rgb(6 182 212 / 0.2)''"
    using rgb_template_refines_spec [OF spec_shadow_color_values(6)]
    by (simp add: shadow_color_entries color_at_values)
  have split: "split_on CHR ''.'' ''colors.error'' = [''colors'', ''error'']"
    by simp
  have w: "walk shadows [''colors'', ''error''] = Some (JStr ''rgb(239 68 68 / 0.2)'')"
  proof -
    have c: "get_property shadows ''colors'' = shadows_colors" "has_property shadows ''colors''"
      by (simp_all add: shadows_def)
    have o: "typeof shadows = ''object''" "truthy shadows"
      by (simp_all add: shadows_def)
    have o2: "typeof shadows_colors = ''object''" "truthy shadows_colors"
       "has_property shadows_colors ''error''"
      by (simp_all add: shadows_colors_def)
    show ?thesis by (simp add: c o o2 e4)
  qed
  have g: "getShadow ''colors.error'' = Inr (JStr ''rgb(239 68 68 / 0.2)'')"
    unfolding getShadow_def lookup_any_def split w by simp
  show ?thesis
    unfolding e1 e2 e3 e4 e5 e6 color_at_values spec_shadow_color_values g by simp
qed

end
